theory Spec2Isabelle
  imports Complex_Main
begin

section \<open>The configuration schema (nanobot/config/schema.py)\<close>

text \<open>
  Every class of the schema is a record; a field whose name occurs in several classes
  (\<open>api_key\<close>, \<open>api_base\<close>, \<open>enabled\<close>, \<open>allow_from\<close>) carries the name of its
  class in front. \<open>str | None\<close> is \<open>string option\<close>, \<open>int\<close> is \<open>int\<close>, and the
  float \<open>temperature\<close> is the real number it denotes (only its sign is ever used).
\<close>

record WhatsAppConfig =
  whatsapp_enabled :: bool
  bridge_url :: string
  whatsapp_allow_from :: "string list"

record TelegramConfig =
  telegram_enabled :: bool
  token :: string
  telegram_allow_from :: "string list"
  proxy :: "string option"

record FeishuConfig =
  feishu_enabled :: bool
  app_id :: string
  app_secret :: string
  encrypt_key :: string
  verification_token :: string
  feishu_allow_from :: "string list"

record ChannelsConfig =
  whatsapp :: WhatsAppConfig
  telegram :: TelegramConfig
  feishu :: FeishuConfig

record AgentDefaults =
  workspace :: string
  model :: string
  max_tokens :: int
  temperature :: real
  max_tool_iterations :: int

record AgentsConfig =
  defaults :: AgentDefaults

record OpenAIConfig =
  openai_api_key :: string
  openai_api_base :: "string option"

record AnthropicConfig =
  anthropic_api_key :: string
  anthropic_api_base :: "string option"

record GeminiConfig =
  gemini_api_key :: string
  gemini_api_base :: "string option"

record GatewayConfig =
  host :: string
  port :: int

record WebSearchConfig =
  websearch_api_key :: string
  max_results :: int

record WebToolsConfig =
  search :: WebSearchConfig

record ExecToolConfig =
  timeout :: int
  restrict_to_workspace :: bool

record ToolsConfig =
  web :: WebToolsConfig
  exec :: ExecToolConfig

record Config =
  agents :: AgentsConfig
  channels :: ChannelsConfig
  openai :: OpenAIConfig
  anthropic :: AnthropicConfig
  gemini :: GeminiConfig
  gateway :: GatewayConfig
  tools :: ToolsConfig

subsection \<open>Declared defaults\<close>

definition WhatsAppConfig_default :: WhatsAppConfig where
  "WhatsAppConfig_default =
     \<lparr>whatsapp_enabled = False, bridge_url = ''ws://localhost:3001'',
      whatsapp_allow_from = []\<rparr>"

definition TelegramConfig_default :: TelegramConfig where
  "TelegramConfig_default =
     \<lparr>telegram_enabled = False, token = '''', telegram_allow_from = [], proxy = None\<rparr>"

definition FeishuConfig_default :: FeishuConfig where
  "FeishuConfig_default =
     \<lparr>feishu_enabled = False, app_id = '''', app_secret = '''', encrypt_key = '''',
      verification_token = '''', feishu_allow_from = []\<rparr>"

definition ChannelsConfig_default :: ChannelsConfig where
  "ChannelsConfig_default =
     \<lparr>whatsapp = WhatsAppConfig_default, telegram = TelegramConfig_default,
      feishu = FeishuConfig_default\<rparr>"

definition AgentDefaults_default :: AgentDefaults where
  "AgentDefaults_default =
     \<lparr>workspace = ''~/.nanobot/workspace'', model = ''gpt-4o'', max_tokens = 8192,
      temperature = 0.7, max_tool_iterations = 20\<rparr>"

definition AgentsConfig_default :: AgentsConfig where
  "AgentsConfig_default = \<lparr>defaults = AgentDefaults_default\<rparr>"

definition OpenAIConfig_default :: OpenAIConfig where
  "OpenAIConfig_default = \<lparr>openai_api_key = '''', openai_api_base = None\<rparr>"

definition AnthropicConfig_default :: AnthropicConfig where
  "AnthropicConfig_default = \<lparr>anthropic_api_key = '''', anthropic_api_base = None\<rparr>"

definition GeminiConfig_default :: GeminiConfig where
  "GeminiConfig_default = \<lparr>gemini_api_key = '''', gemini_api_base = None\<rparr>"

definition GatewayConfig_default :: GatewayConfig where
  "GatewayConfig_default = \<lparr>host = ''0.0.0.0'', port = 18790\<rparr>"

definition WebSearchConfig_default :: WebSearchConfig where
  "WebSearchConfig_default = \<lparr>websearch_api_key = '''', max_results = 5\<rparr>"

definition WebToolsConfig_default :: WebToolsConfig where
  "WebToolsConfig_default = \<lparr>search = WebSearchConfig_default\<rparr>"

definition ExecToolConfig_default :: ExecToolConfig where
  "ExecToolConfig_default = \<lparr>timeout = 60, restrict_to_workspace = False\<rparr>"

definition ToolsConfig_default :: ToolsConfig where
  "ToolsConfig_default = \<lparr>web = WebToolsConfig_default, exec = ExecToolConfig_default\<rparr>"

definition Config_default :: Config where
  "Config_default =
     \<lparr>agents = AgentsConfig_default, channels = ChannelsConfig_default,
      openai = OpenAIConfig_default, anthropic = AnthropicConfig_default,
      gemini = GeminiConfig_default, gateway = GatewayConfig_default,
      tools = ToolsConfig_default\<rparr>"

subsection \<open>The accessors of \<open>Config\<close>\<close>

text \<open>
  Python's \<open>x or None\<close> is \<open>x\<close> when \<open>x\<close> is truthy and \<open>None\<close> otherwise. A string
  is truthy when it is not empty, and \<open>None\<close> is falsy.
\<close>

definition str_or_None :: "string \<Rightarrow> string option" where
  "str_or_None s = (if s = [] then None else Some s)"

definition opt_or_None :: "string option \<Rightarrow> string option" where
  "opt_or_None x = (case x of None \<Rightarrow> None | Some s \<Rightarrow> str_or_None s)"

definition get_api_key :: "Config \<Rightarrow> string option" where
  "get_api_key self = str_or_None (openai_api_key (openai self))"

definition get_api_base :: "Config \<Rightarrow> string option" where
  "get_api_base self = opt_or_None (openai_api_base (openai self))"

subsection \<open>Construction of \<open>AgentDefaults\<close>\<close>

text \<open>
  \<open>AgentDefaults(workspace=..., model=..., ...)\<close>: every keyword argument is optional, and
  a field that is not given takes its declared default. The class declares a type and a
  default for each field and nothing else (no \<open>Field\<close> constraint, no validator), so the
  only check at construction is the type check, which the types of the arguments express
  here: on well-typed arguments construction cannot fail.
\<close>

definition arg_or :: "'a \<Rightarrow> 'a option \<Rightarrow> 'a" where
  "arg_or d x = (case x of None \<Rightarrow> d | Some v \<Rightarrow> v)"

definition AgentDefaults_init ::
  "string option \<Rightarrow> string option \<Rightarrow> int option \<Rightarrow> real option \<Rightarrow> int option \<Rightarrow> AgentDefaults"
where
  "AgentDefaults_init ws md mt tp it =
     \<lparr>workspace = arg_or ''~/.nanobot/workspace'' ws,
      model = arg_or ''gpt-4o'' md,
      max_tokens = arg_or 8192 mt,
      temperature = arg_or 0.7 tp,
      max_tool_iterations = arg_or 20 it\<rparr>"

text \<open>The invariant the specification states for \<open>AgentDefaults\<close>.\<close>

definition AgentDefaults_invariant :: "AgentDefaults \<Rightarrow> bool" where
  "AgentDefaults_invariant a = (0 < max_tokens a \<and> 0 \<le> temperature a)"

section \<open>Paths: \<open>Path(...).expanduser()\<close> of the standard library, POSIX flavour\<close>

text \<open>
  \<open>workspace_path\<close> is \<open>Path(self.agents.defaults.workspace).expanduser()\<close>. A POSIX path
  object holds \<open>_root\<close> and \<open>_parts\<close> (its drive is always empty); \<open>_parts\<close> starts with
  the root when there is one.
\<close>

record PurePath =
  p_root :: string
  p_parts :: "string list"

text \<open>\<open>s.split(c)\<close> for a separator of one character.\<close>

fun split_on :: "char \<Rightarrow> string \<Rightarrow> string list" where
  "split_on c [] = [[]]"
| "split_on c (x # xs) =
     (if x = c then [] # split_on c xs
      else (case split_on c xs of [] \<Rightarrow> [[x]] | w # ws \<Rightarrow> (x # w) # ws))"

definition lstrip :: "char \<Rightarrow> string \<Rightarrow> string" where
  "lstrip c s = dropWhile (\<lambda>x. x = c) s"

definition rstrip :: "char \<Rightarrow> string \<Rightarrow> string" where
  "rstrip c s = rev (dropWhile (\<lambda>x. x = c) (rev s))"

text \<open>
  \<open>_PosixFlavour.splitroot\<close>: exactly two leading slashes are a root of their own, any
  other number of them is the root \<open>/\<close>. The result is the root and the rest.
\<close>

definition splitroot :: "string \<Rightarrow> string \<times> string" where
  "splitroot part =
     (if part \<noteq> [] \<and> hd part = CHR ''/''
      then (let stripped_part = lstrip CHR ''/'' part
            in if length part - length stripped_part = 2 then (''//'', stripped_part)
               else (''/'', stripped_part))
      else ([], part))"

text \<open>
  \<open>_Flavour.parse_parts\<close>: the loop runs over the arguments from the last to the first,
  appends the components of each (from the last to the first, without the empty ones and
  the dots), and stops at the first argument that has a root.
\<close>

fun parse_loop :: "string list \<Rightarrow> string list \<Rightarrow> string \<times> string list" where
  "parse_loop [] parsed = ([], parsed)"
| "parse_loop (part # it) parsed =
     (if part = [] then parse_loop it parsed
      else (case splitroot part of (rt, rel) \<Rightarrow>
        (let parsed' =
               (if CHR ''/'' \<in> set rel
                then parsed @ filter (\<lambda>x. x \<noteq> [] \<and> x \<noteq> ''.'') (rev (split_on CHR ''/'' rel))
                else if rel \<noteq> [] \<and> rel \<noteq> ''.'' then parsed @ [rel] else parsed)
         in if rt \<noteq> [] then (rt, parsed') else parse_loop it parsed')))"

definition parse_parts :: "string list \<Rightarrow> string \<times> string list" where
  "parse_parts parts =
     (case parse_loop (rev parts) [] of (rt, parsed) \<Rightarrow>
        (rt, rev (if rt \<noteq> [] then parsed @ [rt] else parsed)))"

definition Path_from_parts :: "string list \<Rightarrow> PurePath" where
  "Path_from_parts args =
     (case parse_parts args of (rt, parts) \<Rightarrow> \<lparr>p_root = rt, p_parts = parts\<rparr>)"

definition Path :: "string \<Rightarrow> PurePath" where
  "Path s = Path_from_parts [s]"

text \<open>
  What \<open>os.path.expanduser\<close> reads from the process: the variable \<open>HOME\<close> when it is set,
  the home directory of the current user in the password database when it has one, and
  the password database by user name.
\<close>

record os_env =
  environ_HOME :: "string option"
  pw_uid_dir :: "string option"
  passwd :: "(string \<times> string) list"

text \<open>
  \<open>posixpath.expanduser\<close>. \<open>i\<close> is the index of the first slash from index 1 on, or the
  length of the path. An unknown home leaves the path unchanged.
\<close>

definition posix_expanduser :: "os_env \<Rightarrow> string \<Rightarrow> string" where
  "posix_expanduser env path =
     (if take 1 path \<noteq> ''~'' then path
      else (let i = 1 + length (takeWhile (\<lambda>c. c \<noteq> CHR ''/'') (drop 1 path));
                userhome =
                  (if i = 1
                   then (case environ_HOME env of None \<Rightarrow> pw_uid_dir env | Some h \<Rightarrow> Some h)
                   else map_of (passwd env) (take (i - 1) (drop 1 path)))
            in case userhome of
                 None \<Rightarrow> path
               | Some uh \<Rightarrow>
                   (let r = rstrip CHR ''/'' uh @ drop i path
                    in if r = [] then ''/'' else r)))"

datatype py_error = RuntimeError

text \<open>\<open>Path.expanduser\<close>: \<open>RuntimeError("Could not determine home directory.")\<close> is \<open>Inl\<close>.\<close>

definition expanduser :: "os_env \<Rightarrow> PurePath \<Rightarrow> py_error + PurePath" where
  "expanduser env self =
     (if p_root self = [] \<and> p_parts self \<noteq> [] \<and> take 1 (hd (p_parts self)) = ''~''
      then (let homedir = posix_expanduser env (hd (p_parts self))
            in if take 1 homedir = ''~'' then Inl RuntimeError
               else Inr (Path_from_parts (homedir # tl (p_parts self))))
      else Inr self)"

definition workspace_path :: "os_env \<Rightarrow> Config \<Rightarrow> py_error + PurePath" where
  "workspace_path env self = expanduser env (Path (workspace (defaults (agents self))))"

text \<open>
  The components of a path string: what lies between its slashes, without the empty
  pieces and the dots (the pieces that \<open>parse_parts\<close> keeps).
\<close>

definition components :: "string \<Rightarrow> string list" where
  "components s = filter (\<lambda>x. x \<noteq> [] \<and> x \<noteq> ''.'') (split_on CHR ''/'' s)"

text \<open>The home directory of the caller, as \<open>os.path.expanduser("~")\<close> looks it up.\<close>

definition home_dir :: "os_env \<Rightarrow> string option" where
  "home_dir env = (case environ_HOME env of None \<Rightarrow> pw_uid_dir env | Some h \<Rightarrow> Some h)"

text \<open>\<open>PurePath.is_absolute\<close> for the POSIX flavour: the path has a root.\<close>

definition is_absolute :: "PurePath \<Rightarrow> bool" where
  "is_absolute self = (p_root self \<noteq> [])"

text \<open>
  Two notions used in the proofs only: a plain component (what \<open>_parts\<close> holds after the
  root), and the root that \<open>splitroot\<close> gives for a number of leading slashes.
\<close>

definition plain :: "string \<Rightarrow> bool" where
  "plain x = (x \<noteq> [] \<and> x \<noteq> ''.'' \<and> CHR ''/'' \<notin> set x)"

definition root_of :: "nat \<Rightarrow> string" where
  "root_of n = (if n = 0 then [] else if n = 2 then ''//'' else ''/'')"

section \<open>The provider factory (nanobot/providers)\<close>

text \<open>
  The package exports \<open>OpenAIProvider\<close>, \<open>AnthropicProvider\<close>, \<open>GeminiProvider\<close>,
  \<open>create_provider\<close> and \<open>ProviderConfigError\<close>. A provider is one of the three classes,
  holding the vendor model name, the API key and the optional API base it was built with.
\<close>

datatype LLMProvider =
    OpenAIProvider string string "string option"
  | AnthropicProvider string string "string option"
  | GeminiProvider string string "string option"

datatype ProviderFamily = OpenAICompatible | Anthropic | Gemini

fun provider_family :: "LLMProvider \<Rightarrow> ProviderFamily" where
  "provider_family (OpenAIProvider m k b) = OpenAICompatible"
| "provider_family (AnthropicProvider m k b) = Anthropic"
| "provider_family (GeminiProvider m k b) = Gemini"

fun provider_model :: "LLMProvider \<Rightarrow> string" where
  "provider_model (OpenAIProvider m k b) = m"
| "provider_model (AnthropicProvider m k b) = m"
| "provider_model (GeminiProvider m k b) = m"

fun provider_api_key :: "LLMProvider \<Rightarrow> string" where
  "provider_api_key (OpenAIProvider m k b) = k"
| "provider_api_key (AnthropicProvider m k b) = k"
| "provider_api_key (GeminiProvider m k b) = k"

fun provider_api_base :: "LLMProvider \<Rightarrow> string option" where
  "provider_api_base (OpenAIProvider m k b) = b"
| "provider_api_base (AnthropicProvider m k b) = b"
| "provider_api_base (GeminiProvider m k b) = b"

text \<open>
  The failures of the factory: \<open>ProviderConfigError\<close> carries the selected family and the
  name of the missing field; the empty identifier is invalid input.
\<close>

datatype factory_error =
    ProviderConfigError ProviderFamily string
  | InvalidModelIdentifier

definition startswith :: "string \<Rightarrow> string \<Rightarrow> bool" where
  "startswith s p = (take (length p) s = p)"

text \<open>
  Modelled from the spec: the module nanobot/providers/factory.py, which defines
  \<open>create_provider\<close>, is missing; only its import in nanobot/providers/__init__.py is
  present. The definitions below follow section 4.3 of the specification step by step.

  Step 1: a recognized routing prefix selects the family and is stripped; without one
  the family is the OpenAI-compatible one and the identifier is the vendor model name.
\<close>

definition resolve_family :: "string \<Rightarrow> ProviderFamily \<times> string" where
  "resolve_family model_identifier =
     (if startswith model_identifier ''@anthropic/''
      then (Anthropic, drop (length ''@anthropic/'') model_identifier)
      else if startswith model_identifier ''@gemini/''
      then (Gemini, drop (length ''@gemini/'') model_identifier)
      else (OpenAICompatible, model_identifier))"

text \<open>Step 2 looks the configuration group of the selected family up.\<close>

fun family_api_key :: "Config \<Rightarrow> ProviderFamily \<Rightarrow> string" where
  "family_api_key config OpenAICompatible = openai_api_key (openai config)"
| "family_api_key config Anthropic = anthropic_api_key (anthropic config)"
| "family_api_key config Gemini = gemini_api_key (gemini config)"

fun family_api_base :: "Config \<Rightarrow> ProviderFamily \<Rightarrow> string option" where
  "family_api_base config OpenAICompatible = openai_api_base (openai config)"
| "family_api_base config Anthropic = anthropic_api_base (anthropic config)"
| "family_api_base config Gemini = gemini_api_base (gemini config)"

text \<open>Step 3 constructs the provider of the family.\<close>

fun construct_provider ::
  "ProviderFamily \<Rightarrow> string \<Rightarrow> string \<Rightarrow> string option \<Rightarrow> LLMProvider" where
  "construct_provider OpenAICompatible m k b = OpenAIProvider m k b"
| "construct_provider Anthropic m k b = AnthropicProvider m k b"
| "construct_provider Gemini m k b = GeminiProvider m k b"

text \<open>
  Modelled from the spec: \<open>create_provider\<close> of the missing module
  nanobot/providers/factory.py, after section 4.3. The failure branches come in the order
  in which the specification lists them: the missing key (step 2, every family needing
  one: the specification exempts none), then the empty identifier, which is invalid
  input; otherwise the provider is constructed (steps 3 and 4). The \<open>api_key\<close> of a group
  is a string, so an absent key is the empty string, the declared default.
\<close>

definition create_provider :: "string \<Rightarrow> Config \<Rightarrow> factory_error + LLMProvider" where
  "create_provider model_identifier config =
     (case resolve_family model_identifier of (family, vendor_model) \<Rightarrow>
        if family_api_key config family = []
        then Inl (ProviderConfigError family ''api_key'')
        else if model_identifier = [] then Inl InvalidModelIdentifier
        else Inr (construct_provider family vendor_model
                    (family_api_key config family) (family_api_base config family)))"

section \<open>Properties of the accessors\<close>

lemma str_or_None_eq_None [simp]: "str_or_None s = None \<longleftrightarrow> s = []"
  by (simp add: str_or_None_def)

lemma str_or_None_eq_Some [simp]: "str_or_None s = Some t \<longleftrightarrow> s = t \<and> t \<noteq> []"
  by (auto simp: str_or_None_def)

lemma opt_or_None_eq_None [simp]: "opt_or_None x = None \<longleftrightarrow> x = None \<or> x = Some []"
  by (cases x) (simp_all add: opt_or_None_def)

lemma opt_or_None_eq_Some [simp]: "opt_or_None x = Some t \<longleftrightarrow> x = Some t \<and> t \<noteq> []"
  by (cases x) (auto simp: opt_or_None_def)

text \<open>
  Claim C3, as amended. \<open>get_api_key\<close> returns \<open>None\<close> when \<open>openai.api_key\<close> is unset
  (the empty default) and \<open>get_api_base\<close> returns \<open>None\<close> when \<open>openai.api_base\<close> is
  unset (\<open>None\<close>); neither ever returns the empty string; a field set to a string that is
  not empty is returned as it is; \<open>openai.api_base\<close> set to the empty string is returned
  as \<open>None\<close>, not as its value.
\<close>

theorem accessors_unset_or_nonempty:
  "(openai_api_key (openai cfg) = [] \<longrightarrow> get_api_key cfg = None) \<and>
   (openai_api_base (openai cfg) = None \<longrightarrow> get_api_base cfg = None) \<and>
   (openai_api_key (openai cfg) \<noteq> [] \<longrightarrow>
      get_api_key cfg = Some (openai_api_key (openai cfg))) \<and>
   (openai_api_base (openai cfg) = Some b \<and> b \<noteq> [] \<longrightarrow> get_api_base cfg = Some b) \<and>
   (openai_api_base (openai cfg) = Some [] \<longrightarrow> get_api_base cfg = None) \<and>
   get_api_key cfg \<noteq> Some [] \<and> get_api_base cfg \<noteq> Some []"
  by (simp add: get_api_key_def get_api_base_def str_or_None_def)

theorem accessors_unset_or_nonempty_witness:
  "get_api_key Config_default = None \<and> get_api_base Config_default = None \<and>
   get_api_key (Config_default\<lparr>openai := \<lparr>openai_api_key = ''sk-1'',
       openai_api_base = Some ''http://localhost:11434/v1''\<rparr>\<rparr>) = Some ''sk-1'' \<and>
   get_api_base (Config_default\<lparr>openai := \<lparr>openai_api_key = ''sk-1'',
       openai_api_base = Some ''http://localhost:11434/v1''\<rparr>\<rparr>)
     = Some ''http://localhost:11434/v1'' \<and>
   get_api_base (Config_default\<lparr>openai := \<lparr>openai_api_key = ''sk-2'',
       openai_api_base = Some []\<rparr>\<rparr>) = None"
  using accessors_unset_or_nonempty [of Config_default "[]"]
    accessors_unset_or_nonempty [of "Config_default\<lparr>openai := \<lparr>openai_api_key = ''sk-1'',
       openai_api_base = Some ''http://localhost:11434/v1''\<rparr>\<rparr>" "''http://localhost:11434/v1''"]
    accessors_unset_or_nonempty [of "Config_default\<lparr>openai := \<lparr>openai_api_key = ''sk-2'',
       openai_api_base = Some []\<rparr>\<rparr>" "[]"]
  by (simp add: Config_default_def OpenAIConfig_default_def)

text \<open>
  Claim C3 as stated fails where \<open>openai.api_base\<close> is set to the empty string: the field
  is set, and the accessor returns \<open>None\<close>, not the value of the field.
\<close>

theorem get_api_base_set_empty_counterexample:
  "openai_api_base (openai (Config_default\<lparr>openai := \<lparr>openai_api_key = ''sk-1'',
       openai_api_base = Some ''''\<rparr>\<rparr>)) = Some '''' \<and>
   get_api_base (Config_default\<lparr>openai := \<lparr>openai_api_key = ''sk-1'',
       openai_api_base = Some ''''\<rparr>\<rparr>) = None"
  by (simp add: get_api_base_def)

text \<open>
  Claim C8. An empty string is the same as an unset value for the accessors:
  \<open>get_api_key\<close> is \<open>None\<close> exactly when \<open>openai.api_key\<close> is empty, \<open>get_api_base\<close> is
  \<open>None\<close> exactly when \<open>openai.api_base\<close> is \<open>None\<close> or empty, and a configuration with
  the base unset and the same configuration with the base empty give the same result.
\<close>

theorem accessors_empty_as_unset:
  "(get_api_key cfg = None \<longleftrightarrow> openai_api_key (openai cfg) = []) \<and>
   (get_api_base cfg = None \<longleftrightarrow>
      openai_api_base (openai cfg) = None \<or> openai_api_base (openai cfg) = Some []) \<and>
   get_api_base (cfg\<lparr>openai := \<lparr>openai_api_key = k, openai_api_base = None\<rparr>\<rparr>)
     = get_api_base (cfg\<lparr>openai := \<lparr>openai_api_key = k, openai_api_base = Some []\<rparr>\<rparr>)"
  by (simp add: get_api_key_def get_api_base_def) (simp add: opt_or_None_def str_or_None_def)

text \<open>
  Claim C9. The accessors read the \<open>openai\<close> group only: two configurations with the same
  \<open>openai\<close> group give the same \<open>get_api_key\<close> and the same \<open>get_api_base\<close>, whatever
  their other sections are.
\<close>

theorem accessors_openai_only:
  "openai a = openai b \<Longrightarrow> get_api_key a = get_api_key b \<and> get_api_base a = get_api_base b"
  by (simp add: get_api_key_def get_api_base_def)

theorem accessors_openai_only_witness:
  "get_api_key (Config_default\<lparr>openai := \<lparr>openai_api_key = ''sk-1'', openai_api_base = None\<rparr>\<rparr>)
     = get_api_key \<lparr>agents = \<lparr>defaults = AgentDefaults_init (Some ''/srv/ws'') (Some ''@gemini/pro'')
                                  (Some 1) (Some 0) (Some 3)\<rparr>,
          channels = ChannelsConfig_default\<lparr>telegram := TelegramConfig_default\<lparr>token := ''t''\<rparr>\<rparr>,
          openai = \<lparr>openai_api_key = ''sk-1'', openai_api_base = None\<rparr>,
          anthropic = \<lparr>anthropic_api_key = ''sk-ant'', anthropic_api_base = Some ''https://a''\<rparr>,
          gemini = \<lparr>gemini_api_key = ''g'', gemini_api_base = None\<rparr>,
          gateway = \<lparr>host = ''127.0.0.1'', port = 8080\<rparr>,
          tools = ToolsConfig_default\<lparr>exec := \<lparr>timeout = 5, restrict_to_workspace = True\<rparr>\<rparr>\<rparr>"
  using accessors_openai_only [of
      "Config_default\<lparr>openai := \<lparr>openai_api_key = ''sk-1'', openai_api_base = None\<rparr>\<rparr>"
      "\<lparr>agents = \<lparr>defaults = AgentDefaults_init (Some ''/srv/ws'') (Some ''@gemini/pro'')
                                  (Some 1) (Some 0) (Some 3)\<rparr>,
          channels = ChannelsConfig_default\<lparr>telegram := TelegramConfig_default\<lparr>token := ''t''\<rparr>\<rparr>,
          openai = \<lparr>openai_api_key = ''sk-1'', openai_api_base = None\<rparr>,
          anthropic = \<lparr>anthropic_api_key = ''sk-ant'', anthropic_api_base = Some ''https://a''\<rparr>,
          gemini = \<lparr>gemini_api_key = ''g'', gemini_api_base = None\<rparr>,
          gateway = \<lparr>host = ''127.0.0.1'', port = 8080\<rparr>,
          tools = ToolsConfig_default\<lparr>exec := \<lparr>timeout = 5, restrict_to_workspace = True\<rparr>\<rparr>\<rparr>"]
  by simp

section \<open>Construction of \<open>AgentDefaults\<close> and the stated invariant\<close>

text \<open>
  Claim C4, as amended. Construction checks the types of the fields only: the constructed
  value satisfies \<open>max_tokens > 0\<close> and \<open>0 \<le> temperature\<close> exactly when the
  \<open>max_tokens\<close> given (if any) is positive and the \<open>temperature\<close> given (if any) is not
  negative; a given value is stored as it is; with no argument the result is the declared
  defaults, which satisfy the bounds.
\<close>

theorem AgentDefaults_init_invariant_iff:
  "(AgentDefaults_invariant (AgentDefaults_init ws md mt tp it) \<longleftrightarrow>
      (\<forall>n. mt = Some n \<longrightarrow> 0 < n) \<and> (\<forall>t. tp = Some t \<longrightarrow> 0 \<le> t)) \<and>
   max_tokens (AgentDefaults_init ws md (Some n) tp it) = n \<and>
   temperature (AgentDefaults_init ws md mt (Some t) it) = t \<and>
   AgentDefaults_init None None None None None = AgentDefaults_default \<and>
   AgentDefaults_invariant AgentDefaults_default"
  by (cases mt; cases tp)
     (simp_all add: AgentDefaults_invariant_def AgentDefaults_init_def arg_or_def
        AgentDefaults_default_def)

theorem AgentDefaults_init_invariant_iff_witness:
  "AgentDefaults_invariant (AgentDefaults_init None None (Some 4096) (Some 0) None)"
  using AgentDefaults_init_invariant_iff [of None None "Some 4096" "Some 0" None]
  by simp

text \<open>
  Claim C4 as stated fails: \<open>AgentDefaults(max_tokens=-1)\<close> and
  \<open>AgentDefaults(temperature=-1.0)\<close> are constructed, and violate the invariant.
\<close>

theorem AgentDefaults_invariant_counterexample:
  "\<not> AgentDefaults_invariant (AgentDefaults_init None None (Some (- 1)) None None) \<and>
   \<not> AgentDefaults_invariant (AgentDefaults_init None None None (Some (- 1)) None) \<and>
   max_tokens (AgentDefaults_init None None (Some (- 1)) None None) = - 1"
  by (simp add: AgentDefaults_invariant_def AgentDefaults_init_def arg_or_def)

section \<open>The provider factory\<close>

lemma resolve_family_default:
  "\<not> startswith m ''@anthropic/'' \<Longrightarrow> \<not> startswith m ''@gemini/'' \<Longrightarrow>
   resolve_family m = (OpenAICompatible, m)"
  by (simp add: resolve_family_def)

lemma resolve_family_empty: "resolve_family [] = (OpenAICompatible, [])"
  by (simp add: resolve_family_def startswith_def)

lemma provider_family_construct [simp]: "provider_family (construct_provider f v k b) = f"
  by (cases f) simp_all

lemma provider_model_construct [simp]: "provider_model (construct_provider f v k b) = v"
  by (cases f) simp_all

text \<open>
  Claim C1, as amended. When the API key of the selected family is configured,
  \<open>create_provider\<close> routes by prefix: \<open>@anthropic/name\<close> gives an Anthropic provider and
  \<open>@gemini/name\<close> a Gemini provider, each with the vendor model name \<open>name\<close> (the prefix
  stripped); an identifier that is not empty and has neither prefix gives an
  OpenAI-compatible provider whose vendor model name is the whole identifier. The provider
  holds the key and the base of the selected group.
\<close>

theorem create_provider_routes_by_prefix:
  "(anthropic_api_key (anthropic cfg) \<noteq> [] \<longrightarrow>
      create_provider (''@anthropic/'' @ name) cfg =
        Inr (AnthropicProvider name (anthropic_api_key (anthropic cfg))
               (anthropic_api_base (anthropic cfg)))) \<and>
   (gemini_api_key (gemini cfg) \<noteq> [] \<longrightarrow>
      create_provider (''@gemini/'' @ name) cfg =
        Inr (GeminiProvider name (gemini_api_key (gemini cfg))
               (gemini_api_base (gemini cfg)))) \<and>
   (openai_api_key (openai cfg) \<noteq> [] \<and> m \<noteq> [] \<and>
    \<not> startswith m ''@anthropic/'' \<and> \<not> startswith m ''@gemini/'' \<longrightarrow>
      create_provider m cfg =
        Inr (OpenAIProvider m (openai_api_key (openai cfg)) (openai_api_base (openai cfg))))"
  by (simp add: create_provider_def resolve_family_default)
     (simp add: resolve_family_def startswith_def)

theorem create_provider_routes_by_prefix_witness:
  "create_provider ''@anthropic/claude-3''
     (Config_default\<lparr>anthropic := \<lparr>anthropic_api_key = ''sk-ant'', anthropic_api_base = None\<rparr>,
        gemini := \<lparr>gemini_api_key = ''g-key'', gemini_api_base = None\<rparr>,
        openai := \<lparr>openai_api_key = ''sk-1'', openai_api_base = Some ''https://api''\<rparr>\<rparr>)
     = Inr (AnthropicProvider ''claude-3'' ''sk-ant'' None) \<and>
   create_provider ''@gemini/claude-3''
     (Config_default\<lparr>anthropic := \<lparr>anthropic_api_key = ''sk-ant'', anthropic_api_base = None\<rparr>,
        gemini := \<lparr>gemini_api_key = ''g-key'', gemini_api_base = None\<rparr>,
        openai := \<lparr>openai_api_key = ''sk-1'', openai_api_base = Some ''https://api''\<rparr>\<rparr>)
     = Inr (GeminiProvider ''claude-3'' ''g-key'' None) \<and>
   create_provider ''gpt-4o''
     (Config_default\<lparr>anthropic := \<lparr>anthropic_api_key = ''sk-ant'', anthropic_api_base = None\<rparr>,
        gemini := \<lparr>gemini_api_key = ''g-key'', gemini_api_base = None\<rparr>,
        openai := \<lparr>openai_api_key = ''sk-1'', openai_api_base = Some ''https://api''\<rparr>\<rparr>)
     = Inr (OpenAIProvider ''gpt-4o'' ''sk-1'' (Some ''https://api''))"
  using create_provider_routes_by_prefix [of
     "Config_default\<lparr>anthropic := \<lparr>anthropic_api_key = ''sk-ant'', anthropic_api_base = None\<rparr>,
        gemini := \<lparr>gemini_api_key = ''g-key'', gemini_api_base = None\<rparr>,
        openai := \<lparr>openai_api_key = ''sk-1'', openai_api_base = Some ''https://api''\<rparr>\<rparr>"
     "''claude-3''" "''gpt-4o''"]
  by (simp add: startswith_def)

text \<open>
  Claim C1 as stated, for every configuration and every identifier, fails: with the
  declared defaults the Anthropic key is empty and \<open>@anthropic/claude-3\<close> gives no
  provider, and the empty identifier, which has no recognized prefix, gives none either.
\<close>

theorem create_provider_routes_counterexample:
  "create_provider ''@anthropic/claude-3'' Config_default
     = Inl (ProviderConfigError Anthropic ''api_key'') \<and>
   create_provider '''' (Config_default\<lparr>openai :=
       \<lparr>openai_api_key = ''sk-1'', openai_api_base = None\<rparr>\<rparr>) = Inl InvalidModelIdentifier"
  by (simp add: create_provider_def resolve_family_def startswith_def Config_default_def
        AnthropicConfig_default_def)

text \<open>
  Claim C2. When the API key of the family that the routing prefix selects is empty,
  \<open>create_provider\<close> fails with \<open>ProviderConfigError\<close> naming that family and the field
  \<open>api_key\<close>, and returns no provider: for \<open>@anthropic/...\<close> with an empty Anthropic key,
  for \<open>@gemini/...\<close> with an empty Gemini key, for an identifier without prefix with an
  empty OpenAI key, and so for every identifier \<open>i\<close>.
\<close>

theorem create_provider_missing_key:
  "(anthropic_api_key (anthropic cfg) = [] \<longrightarrow>
      create_provider (''@anthropic/'' @ name) cfg
        = Inl (ProviderConfigError Anthropic ''api_key'')) \<and>
   (gemini_api_key (gemini cfg) = [] \<longrightarrow>
      create_provider (''@gemini/'' @ name) cfg
        = Inl (ProviderConfigError Gemini ''api_key'')) \<and>
   (openai_api_key (openai cfg) = [] \<and>
    \<not> startswith m ''@anthropic/'' \<and> \<not> startswith m ''@gemini/'' \<longrightarrow>
      create_provider m cfg = Inl (ProviderConfigError OpenAICompatible ''api_key'')) \<and>
   (family_api_key cfg (fst (resolve_family i)) = [] \<longrightarrow>
      create_provider i cfg = Inl (ProviderConfigError (fst (resolve_family i)) ''api_key'') \<and>
      (\<forall>p. create_provider i cfg \<noteq> Inr p))"
  by (simp add: create_provider_def resolve_family_default split: prod.splits)
     (simp add: resolve_family_def startswith_def)

theorem create_provider_missing_key_witness:
  "create_provider ''@anthropic/claude-3'' Config_default
     = Inl (ProviderConfigError Anthropic ''api_key'') \<and>
   create_provider ''@gemini/gemini-pro'' Config_default
     = Inl (ProviderConfigError Gemini ''api_key'') \<and>
   create_provider ''gpt-4o'' Config_default
     = Inl (ProviderConfigError OpenAICompatible ''api_key'') \<and>
   create_provider '''' Config_default
     = Inl (ProviderConfigError OpenAICompatible ''api_key'')"
  using create_provider_missing_key [of Config_default "''claude-3''" "''gpt-4o''" "''''"]
    create_provider_missing_key [of Config_default "''gemini-pro''" "''gpt-4o''" "''''"]
  by (simp add: startswith_def resolve_family_def Config_default_def AnthropicConfig_default_def
        GeminiConfig_default_def OpenAIConfig_default_def)

text \<open>
  Claim C7. The empty identifier never gives a provider, and with the OpenAI key
  configured it is rejected as invalid input. For an identifier that is not empty the
  factory is a selection with one failure branch: it fails exactly when the key of the
  selected family is empty, with \<open>ProviderConfigError\<close> for that family, and otherwise
  returns the provider of the selected family with the stripped model name.
\<close>

theorem create_provider_failure_branches:
  "(\<forall>p. create_provider [] cfg \<noteq> Inr p) \<and>
   (openai_api_key (openai cfg) \<noteq> [] \<longrightarrow> create_provider [] cfg = Inl InvalidModelIdentifier) \<and>
   (m \<noteq> [] \<longrightarrow>
      (case create_provider m cfg of
         Inl e \<Rightarrow> e = ProviderConfigError (fst (resolve_family m)) ''api_key'' \<and>
                  family_api_key cfg (fst (resolve_family m)) = []
       | Inr p \<Rightarrow> family_api_key cfg (fst (resolve_family m)) \<noteq> [] \<and>
                  p = construct_provider (fst (resolve_family m)) (snd (resolve_family m))
                        (family_api_key cfg (fst (resolve_family m)))
                        (family_api_base cfg (fst (resolve_family m))) \<and>
                  provider_family p = fst (resolve_family m) \<and>
                  provider_model p = snd (resolve_family m)))"
  by (simp add: create_provider_def resolve_family_empty split: prod.splits)

theorem create_provider_failure_branches_witness:
  "create_provider [] (Config_default\<lparr>openai :=
       \<lparr>openai_api_key = ''sk-1'', openai_api_base = None\<rparr>\<rparr>) = Inl InvalidModelIdentifier \<and>
   (case create_provider ''@gemini/gemini-pro'' (Config_default\<lparr>openai :=
       \<lparr>openai_api_key = ''sk-1'', openai_api_base = None\<rparr>\<rparr>) of
      Inl e \<Rightarrow> e = ProviderConfigError Gemini ''api_key''
    | Inr p \<Rightarrow> False) \<and>
   (case create_provider ''gpt-4o'' (Config_default\<lparr>openai :=
       \<lparr>openai_api_key = ''sk-1'', openai_api_base = None\<rparr>\<rparr>) of
      Inl e \<Rightarrow> False
    | Inr p \<Rightarrow> provider_family p = OpenAICompatible \<and> provider_model p = ''gpt-4o'')"
  using create_provider_failure_branches [of "Config_default\<lparr>openai :=
       \<lparr>openai_api_key = ''sk-1'', openai_api_base = None\<rparr>\<rparr>" "''@gemini/gemini-pro''"]
    create_provider_failure_branches [of "Config_default\<lparr>openai :=
       \<lparr>openai_api_key = ''sk-1'', openai_api_base = None\<rparr>\<rparr>" "''gpt-4o''"]
  by (simp add: create_provider_def resolve_family_def startswith_def Config_default_def
        GeminiConfig_default_def)

section \<open>Parsing paths\<close>

lemma split_on_no_sep: "c \<notin> set s \<Longrightarrow> split_on c s = [s]"
  by (induction s) auto

lemma split_on_not_Nil [simp]: "split_on c s \<noteq> []"
  by (cases s) (auto split: list.splits)

lemma split_on_snoc_sep: "split_on c (s @ [c]) = split_on c s @ [[]]"
  by (induction s) (auto split: list.splits)

lemma components_snoc_slash: "components (s @ ''/'') = components s"
  by (simp add: components_def split_on_snoc_sep)

lemma rstrip_Nil [simp]: "rstrip c [] = []"
  by (simp add: rstrip_def)

lemma rstrip_snoc: "rstrip c (s @ [x]) = (if x = c then rstrip c s else s @ [x])"
  by (simp add: rstrip_def)

lemma rstrip_Cons:
  "rstrip c (x # xs) = (if x = c \<and> (\<forall>y \<in> set xs. y = c) then [] else x # rstrip c xs)"
  by (auto simp: rstrip_def dropWhile_append)

text \<open>Trailing slashes add no component.\<close>

lemma components_rstrip: "components (rstrip CHR ''/'' s) = components s"
  by (induction s rule: rev_induct) (simp_all add: rstrip_snoc components_snoc_slash)

text \<open>One argument: the root of \<open>splitroot\<close>, then the components of the rest.\<close>

lemma parse_loop_single:
  "parse_loop [s] [] = (fst (splitroot s), rev (components (snd (splitroot s))))"
proof (cases "s = []")
  case True
  then show ?thesis by (simp add: splitroot_def components_def)
next
  case False
  obtain rt rel where sr: "splitroot s = (rt, rel)" by (cases "splitroot s")
  with False show ?thesis
    by (auto simp: Let_def components_def split_on_no_sep rev_filter)
qed

lemma parse_parts_single:
  "parse_parts [s] =
     (fst (splitroot s),
      (if fst (splitroot s) \<noteq> [] then [fst (splitroot s)] else []) @ components (snd (splitroot s)))"
  by (simp add: parse_parts_def parse_loop_single del: parse_loop.simps)

lemma splitroot_plain: "plain x \<Longrightarrow> splitroot x = ([], x)"
  by (cases x) (auto simp: plain_def splitroot_def)

text \<open>The loop passes over plain components and collects them as they are.\<close>

lemma parse_loop_plain:
  "\<forall>x \<in> set xs. plain x \<Longrightarrow> parse_loop (xs @ ys) acc = parse_loop ys (acc @ xs)"
proof (induction xs arbitrary: acc)
  case Nil
  then show ?case by simp
next
  case (Cons x xs)
  then have px: "plain x" and rest: "\<forall>x \<in> set xs. plain x" by simp_all
  from px have "parse_loop ((x # xs) @ ys) acc = parse_loop (xs @ ys) (acc @ [x])"
    by (simp add: splitroot_plain) (simp add: plain_def)
  with Cons.IH [OF rest] show ?case by simp
qed

lemma parse_loop_acc:
  "parse_loop [s] acc = (fst (parse_loop [s] []), acc @ snd (parse_loop [s] []))"
  by (cases "s = []") (auto simp: Let_def split: prod.splits)

lemma parse_parts_head_plain:
  assumes "\<forall>x \<in> set rest. plain x"
  shows "parse_parts (s # rest) = (fst (parse_parts [s]), snd (parse_parts [s]) @ rest)"
proof -
  have "\<forall>x \<in> set (rev rest). plain x" using assms by simp
  then have "parse_loop (rev rest @ [s]) [] = parse_loop [s] ([] @ rev rest)"
    by (rule parse_loop_plain)
  also have "\<dots> = (fst (parse_loop [s] []), rev rest @ snd (parse_loop [s] []))"
    using parse_loop_acc [of s "rev rest"] by simp
  finally show ?thesis
    by (simp add: parse_parts_def split: prod.splits)
qed

lemma length_minus_dropWhile:
  "length s - length (dropWhile P s) = length (takeWhile P s)"
proof -
  have "length (takeWhile P s @ dropWhile P s) = length s" by simp
  then show ?thesis by (simp del: takeWhile_dropWhile_id)
qed

text \<open>\<open>splitroot\<close> by the number of leading slashes.\<close>

lemma splitroot_eq:
  "splitroot s =
     (root_of (length (takeWhile (\<lambda>x. x = CHR ''/'') s)), dropWhile (\<lambda>x. x = CHR ''/'') s)"
proof (cases s)
  case Nil
  then show ?thesis by (simp add: splitroot_def root_of_def)
next
  case (Cons x xs)
  show ?thesis
  proof (cases "x = CHR ''/''")
    case True
    with Cons have "length (takeWhile (\<lambda>x. x = CHR ''/'') s) \<noteq> 0" by simp
    with Cons True show ?thesis
      unfolding splitroot_def lstrip_def Let_def length_minus_dropWhile root_of_def
      by simp
  next
    case False
    with Cons show ?thesis by (simp add: splitroot_def root_of_def)
  qed
qed

text \<open>Stripping the trailing slashes of a string that is not all slashes keeps its head.\<close>

lemma rstrip_lead:
  "dropWhile (\<lambda>x. x = c) s \<noteq> [] \<Longrightarrow>
   takeWhile (\<lambda>x. x = c) (rstrip c s) = takeWhile (\<lambda>x. x = c) s \<and>
   dropWhile (\<lambda>x. x = c) (rstrip c s) = rstrip c (dropWhile (\<lambda>x. x = c) s) \<and>
   rstrip c s \<noteq> []"
proof (induction s)
  case Nil
  then show ?case by simp
next
  case (Cons x xs)
  show ?case
  proof (cases "x = c")
    case True
    with Cons.prems have ne: "dropWhile (\<lambda>x. x = c) xs \<noteq> []" by simp
    then have "\<not> (\<forall>y \<in> set xs. y = c)" by (auto simp: dropWhile_eq_Nil_conv)
    with True Cons.IH [OF ne] show ?thesis by (simp add: rstrip_Cons)
  next
    case False
    then show ?thesis by (simp add: rstrip_Cons)
  qed
qed

lemma all_slashes_two:
  assumes "dropWhile (\<lambda>x. x = c) s = []" "length s = 2"
  shows "s = [c, c]"
proof -
  from assms(1) have all: "\<forall>y \<in> set s. y = c" by (simp add: dropWhile_eq_Nil_conv)
  from assms(2) obtain a b where "s = [a, b]"
    by (cases s; cases "tl s") auto
  with all show ?thesis by simp
qed

text \<open>
  The home that \<open>posixpath.expanduser\<close> hands back (trailing slashes stripped, \<open>/\<close> if
  nothing is left) parses like the home itself, except for the home \<open>//\<close>.
\<close>

lemma parse_parts_homedir:
  assumes "h \<noteq> []" and "h \<noteq> ''//''"
  shows "parse_parts [if rstrip CHR ''/'' h = [] then ''/'' else rstrip CHR ''/'' h]
           = parse_parts [h]"
proof (cases "dropWhile (\<lambda>x. x = CHR ''/'') h = []")
  case True
  then have all: "\<forall>y \<in> set h. y = CHR ''/''" by (simp add: dropWhile_eq_Nil_conv)
  then have stripped: "rstrip CHR ''/'' h = []"
    by (simp add: rstrip_def dropWhile_eq_Nil_conv)
  from all have tw: "takeWhile (\<lambda>x. x = CHR ''/'') h = h"
    by (simp add: takeWhile_eq_all_conv)
  from assms(2) True have "length h \<noteq> 2"
    using all_slashes_two [of "CHR ''/''" h] by auto
  with assms(1) have r: "root_of (length h) = ''/''" by (simp add: root_of_def)
  have "splitroot h = (root_of (length h), [])"
    by (simp add: splitroot_eq tw True)
  with r have sh: "splitroot h = (''/'', [])" by simp
  have s1: "splitroot ''/'' = (''/'', [])" by (simp add: splitroot_def lstrip_def)
  show ?thesis by (simp add: stripped parse_parts_single sh s1)
next
  case False
  from rstrip_lead [OF False] show ?thesis
    by (simp add: parse_parts_single splitroot_eq components_rstrip)
qed

lemma Path_relative:
  "take 1 w \<noteq> ''/'' \<Longrightarrow> Path w = \<lparr>p_root = [], p_parts = components w\<rparr>"
  by (cases w) (simp_all add: Path_def Path_from_parts_def parse_parts_single splitroot_eq
        root_of_def)

lemma Path_absolute: "take 1 w = ''/'' \<Longrightarrow> p_root (Path w) \<noteq> []"
  by (cases w) (simp_all add: Path_def Path_from_parts_def parse_parts_single splitroot_eq
        root_of_def)

lemma components_default_workspace:
  "components ''~/.nanobot/workspace'' = [''~'', ''.nanobot'', ''workspace'']"
  by (simp add: components_def)

lemma posix_expanduser_tilde:
  "home_dir env = Some h \<Longrightarrow>
   posix_expanduser env ''~'' = (if rstrip CHR ''/'' h = [] then ''/'' else rstrip CHR ''/'' h)"
  by (simp add: posix_expanduser_def home_dir_def Let_def)

lemma homedir_not_tilde:
  assumes "take 1 h \<noteq> ''~''"
  shows "take 1 (if rstrip CHR ''/'' h = [] then ''/'' else rstrip CHR ''/'' h) \<noteq> ''~''"
  using assms by (cases h) (simp_all add: rstrip_Cons)

section \<open>The workspace path\<close>

text \<open>
  Claim C5. For a configuration whose workspace is \<open>~/.nanobot/workspace\<close>, and a caller
  whose home directory \<open>h\<close> is known (not empty, not starting with \<open>~\<close>, and not the
  path \<open>//\<close>), \<open>workspace_path\<close> returns the path of \<open>h\<close> followed by the components
  \<open>.nanobot\<close> and \<open>workspace\<close>; it is absolute when \<open>h\<close> is. \<open>workspace_path\<close> returns a
  path and nothing else: it is a function of the configuration and the home directory, and
  the configuration is not changed.
\<close>

theorem workspace_path_default_home:
  assumes ws: "workspace (defaults (agents cfg)) = ''~/.nanobot/workspace''"
      and home: "home_dir env = Some h"
      and ne: "h \<noteq> []" and nd: "h \<noteq> ''//''" and nt: "take 1 h \<noteq> ''~''"
  shows "workspace_path env cfg =
           Inr \<lparr>p_root = p_root (Path h),
                p_parts = p_parts (Path h) @ [''.nanobot'', ''workspace'']\<rparr> \<and>
         (take 1 h = ''/'' \<longrightarrow>
            is_absolute \<lparr>p_root = p_root (Path h),
                p_parts = p_parts (Path h) @ [''.nanobot'', ''workspace'']\<rparr>)"
proof -
  let ?hd = "if rstrip CHR ''/'' h = [] then ''/'' else rstrip CHR ''/'' h"
  have p: "Path ''~/.nanobot/workspace'' =
             \<lparr>p_root = [], p_parts = [''~'', ''.nanobot'', ''workspace'']\<rparr>"
    by (simp add: Path_relative components_default_workspace)
  have pl: "\<forall>x \<in> set [''.nanobot'', ''workspace'']. plain x"
    by (simp add: plain_def)
  have "parse_parts (?hd # [''.nanobot'', ''workspace'']) =
          (fst (parse_parts [?hd]), snd (parse_parts [?hd]) @ [''.nanobot'', ''workspace''])"
    by (rule parse_parts_head_plain [OF pl])
  also have "parse_parts [?hd] = parse_parts [h]"
    by (rule parse_parts_homedir [OF ne nd])
  finally have pp: "Path_from_parts (?hd # [''.nanobot'', ''workspace'']) =
      \<lparr>p_root = p_root (Path h), p_parts = p_parts (Path h) @ [''.nanobot'', ''workspace'']\<rparr>"
    by (simp add: Path_from_parts_def Path_def split: prod.splits)
  have "expanduser env (Path ''~/.nanobot/workspace'') =
          Inr (Path_from_parts (?hd # [''.nanobot'', ''workspace'']))"
    using homedir_not_tilde [OF nt]
    by (simp add: expanduser_def p posix_expanduser_tilde [OF home] Let_def)
  with pp ws have "workspace_path env cfg =
      Inr \<lparr>p_root = p_root (Path h), p_parts = p_parts (Path h) @ [''.nanobot'', ''workspace'']\<rparr>"
    by (simp add: workspace_path_def)
  moreover have "take 1 h = ''/'' \<longrightarrow> p_root (Path h) \<noteq> []"
    using Path_absolute by blast
  ultimately show ?thesis by (simp add: is_absolute_def)
qed

theorem workspace_path_default_home_witness:
  "workspace_path \<lparr>environ_HOME = Some ''/home/u'', pw_uid_dir = None, passwd = []\<rparr>
     Config_default =
     Inr \<lparr>p_root = ''/'', p_parts = [''/'', ''home'', ''u'', ''.nanobot'', ''workspace'']\<rparr> \<and>
   is_absolute \<lparr>p_root = ''/'', p_parts = [''/'', ''home'', ''u'', ''.nanobot'', ''workspace'']\<rparr>"
proof -
  have p: "Path ''/home/u'' = \<lparr>p_root = ''/'', p_parts = [''/'', ''home'', ''u'']\<rparr>"
    by (simp add: Path_def Path_from_parts_def parse_parts_def splitroot_def lstrip_def)
  show ?thesis
    using workspace_path_default_home [of Config_default
        "\<lparr>environ_HOME = Some ''/home/u'', pw_uid_dir = None, passwd = []\<rparr>" "''/home/u''"]
    by (simp add: p home_dir_def Config_default_def AgentsConfig_default_def
          AgentDefaults_default_def)
qed

text \<open>
  Claim C10, as amended. When the workspace is absolute (it begins with a slash), or has
  no component, or its first component (the empty pieces and the dots between the slashes
  do not count) does not begin with \<open>~\<close>, \<open>workspace_path\<close> returns the path of the
  workspace unchanged.
\<close>

theorem workspace_path_unchanged:
  assumes "workspace (defaults (agents cfg)) = w"
      and "take 1 w = ''/'' \<or> components w = [] \<or> take 1 (hd (components w)) \<noteq> ''~''"
  shows "workspace_path env cfg = Inr (Path w)"
proof (cases "take 1 w = ''/''")
  case True
  then show ?thesis
    using assms(1) Path_absolute [OF True] by (simp add: workspace_path_def expanduser_def)
next
  case False
  with assms(2) have "components w = [] \<or> take 1 (hd (components w)) \<noteq> ''~''" by simp
  then show ?thesis
    using assms(1) by (auto simp: workspace_path_def expanduser_def Path_relative [OF False])
qed

theorem workspace_path_unchanged_witness:
  "workspace_path \<lparr>environ_HOME = Some ''/home/u'', pw_uid_dir = None, passwd = []\<rparr>
     (Config_default\<lparr>agents := \<lparr>defaults = AgentDefaults_default\<lparr>workspace := ''/srv/bot''\<rparr>\<rparr>\<rparr>)
     = Inr \<lparr>p_root = ''/'', p_parts = [''/'', ''srv'', ''bot'']\<rparr> \<and>
   workspace_path \<lparr>environ_HOME = Some ''/home/u'', pw_uid_dir = None, passwd = []\<rparr>
     (Config_default\<lparr>agents := \<lparr>defaults = AgentDefaults_default\<lparr>workspace := ''data/~x''\<rparr>\<rparr>\<rparr>)
     = Inr \<lparr>p_root = [], p_parts = [''data'', ''~x'']\<rparr>"
proof -
  have p: "Path ''/srv/bot'' = \<lparr>p_root = ''/'', p_parts = [''/'', ''srv'', ''bot'']\<rparr>"
    by (simp add: Path_def Path_from_parts_def parse_parts_def splitroot_def lstrip_def)
  have q: "Path ''data/~x'' = \<lparr>p_root = [], p_parts = [''data'', ''~x'']\<rparr>"
    by (simp add: Path_def Path_from_parts_def parse_parts_def splitroot_def lstrip_def)
  have c: "components ''data/~x'' = [''data'', ''~x'']"
    by (simp add: components_def)
  show ?thesis
    using workspace_path_unchanged [of
        "Config_default\<lparr>agents := \<lparr>defaults = AgentDefaults_default\<lparr>workspace := ''/srv/bot''\<rparr>\<rparr>\<rparr>"
        "''/srv/bot''" "\<lparr>environ_HOME = Some ''/home/u'', pw_uid_dir = None, passwd = []\<rparr>"]
      workspace_path_unchanged [of
        "Config_default\<lparr>agents := \<lparr>defaults = AgentDefaults_default\<lparr>workspace := ''data/~x''\<rparr>\<rparr>\<rparr>"
        "''data/~x''" "\<lparr>environ_HOME = Some ''/home/u'', pw_uid_dir = None, passwd = []\<rparr>"]
    by (simp add: p q c)
qed

text \<open>
  Claim C10 as stated fails: the workspace \<open>./~/x\<close> does not begin with \<open>~\<close>, its path
  is \<open>~/x\<close> (the leading dot is dropped), and \<open>workspace_path\<close> expands it to the home
  directory followed by \<open>x\<close>.
\<close>

theorem workspace_path_dot_tilde_counterexample:
  "take 1 ''./~/x'' \<noteq> ''~'' \<and>
   Path ''./~/x'' = \<lparr>p_root = [], p_parts = [''~'', ''x'']\<rparr> \<and>
   workspace_path \<lparr>environ_HOME = Some ''/home/u'', pw_uid_dir = None, passwd = []\<rparr>
     (Config_default\<lparr>agents := \<lparr>defaults = AgentDefaults_default\<lparr>workspace := ''./~/x''\<rparr>\<rparr>\<rparr>)
     = Inr \<lparr>p_root = ''/'', p_parts = [''/'', ''home'', ''u'', ''x'']\<rparr>"
  by (simp add: workspace_path_def expanduser_def posix_expanduser_def Path_def
        Path_from_parts_def parse_parts_def splitroot_def lstrip_def rstrip_def Let_def)


end
